theory Spec2Isabelle
  imports Main
begin

chapter \<open>kaeru-tools: language tables, locale resolution, prompt loading and the assistant\<close>

text \<open>
  A shallow embedding of the TypeScript sources: the enumerations and tables of
  \<^verbatim>\<open>enums/languages.ts\<close>, \<^verbatim>\<open>resolveLanguageFromLocale\<close>, the \<^verbatim>\<open>PromptLoader\<close>
  class and the \<^verbatim>\<open>KaruAssistant\<close> class. Of the assistant, the constructor and the
  methods \<^verbatim>\<open>summarize\<close> and \<^verbatim>\<open>translate\<close> are embedded; \<^verbatim>\<open>ask\<close> and \<^verbatim>\<open>getKeyPoints\<close>
  are not.

  A JavaScript string is a sequence of UTF-16 code units. It is modelled as a \<^typ>\<open>string\<close>,
  whose characters are the code units \<open>0x00\<close> to \<open>0xFF\<close>: the development covers the strings
  of the Latin-1 range, and every character class below is the restriction of the
  ECMAScript class to that range.
\<close>

section \<open>Enumerations and tables (enums/languages.ts)\<close>

datatype SummaryLength = SHORT | MEDIUM | LONG


datatype Languages = EN | ES | FR | DE | IT | PT | RU | ZH | JA | KO | AR | HI | TR

text \<open>The string value of each enumeration member, as the enum declarations give it.\<close>

fun SummaryLength_value :: "SummaryLength \<Rightarrow> string" where
  "SummaryLength_value SHORT = ''short''"
| "SummaryLength_value MEDIUM = ''medium''"
| "SummaryLength_value LONG = ''long''"





text \<open>\<^verbatim>\<open>LANGUAGE_DISPLAY_NAME\<close>, keyed by the members of \<^typ>\<open>Languages\<close>.\<close>

definition LANGUAGE_DISPLAY_NAME_entries :: "(Languages \<times> string) list" where
  "LANGUAGE_DISPLAY_NAME_entries =
    [(EN, ''English''), (ES, ''Spanish''), (FR, ''French''), (DE, ''German''),
     (IT, ''Italian''), (PT, ''Portuguese''), (RU, ''Russian''), (ZH, ''Chinese''),
     (JA, ''Japanese''), (KO, ''Korean''), (AR, ''Arabic''), (HI, ''Hindi''),
     (TR, ''Turkish'')]"

definition LANGUAGE_DISPLAY_NAME :: "Languages \<rightharpoonup> string" where
  "LANGUAGE_DISPLAY_NAME = map_of LANGUAGE_DISPLAY_NAME_entries"

section \<open>JavaScript strings\<close>

subsection \<open>Character classes\<close>

text \<open>
  ECMAScript \<^emph>\<open>LineTerminator\<close> (LF, CR) and \<^emph>\<open>WhiteSpace\<close> (TAB, VT, FF, SP, NBSP) in the
  Latin-1 range. \<^verbatim>\<open>String.prototype.trim\<close> and the class \<^verbatim>\<open>\s\<close> use their union,
  \<^verbatim>\<open>.\<close> (without the \<^verbatim>\<open>s\<close> flag) the complement of the line terminators, \<^verbatim>\<open>\d\<close> the ten
  ASCII digits.
\<close>

definition is_line_terminator :: "char \<Rightarrow> bool" where
  "is_line_terminator c = (c = CHR 0x0A \<or> c = CHR 0x0D)"

definition is_white_space :: "char \<Rightarrow> bool" where
  "is_white_space c =
     (c = CHR 0x09 \<or> c = CHR 0x0B \<or> c = CHR 0x0C \<or> c = CHR 0x20 \<or> c = CHR 0xA0)"

definition is_space :: "char \<Rightarrow> bool" where
  "is_space c = (is_white_space c \<or> is_line_terminator c)"

definition is_digit :: "char \<Rightarrow> bool" where
  "is_digit c = (c \<in> set ''0123456789'')"

definition ascii_upper :: string where
  "ascii_upper = ''ABCDEFGHIJKLMNOPQRSTUVWXYZ''"

definition ascii_lower :: string where
  "ascii_lower = ''abcdefghijklmnopqrstuvwxyz''"

definition latin1_upper :: string where
  "latin1_upper =
    [CHR 0xC0, CHR 0xC1, CHR 0xC2, CHR 0xC3, CHR 0xC4, CHR 0xC5, CHR 0xC6, CHR 0xC7,
     CHR 0xC8, CHR 0xC9, CHR 0xCA, CHR 0xCB, CHR 0xCC, CHR 0xCD, CHR 0xCE, CHR 0xCF,
     CHR 0xD0, CHR 0xD1, CHR 0xD2, CHR 0xD3, CHR 0xD4, CHR 0xD5, CHR 0xD6, CHR 0xD8,
     CHR 0xD9, CHR 0xDA, CHR 0xDB, CHR 0xDC, CHR 0xDD, CHR 0xDE]"

definition latin1_lower :: string where
  "latin1_lower =
    [CHR 0xE0, CHR 0xE1, CHR 0xE2, CHR 0xE3, CHR 0xE4, CHR 0xE5, CHR 0xE6, CHR 0xE7,
     CHR 0xE8, CHR 0xE9, CHR 0xEA, CHR 0xEB, CHR 0xEC, CHR 0xED, CHR 0xEE, CHR 0xEF,
     CHR 0xF0, CHR 0xF1, CHR 0xF2, CHR 0xF3, CHR 0xF4, CHR 0xF5, CHR 0xF6, CHR 0xF8,
     CHR 0xF9, CHR 0xFA, CHR 0xFB, CHR 0xFC, CHR 0xFD, CHR 0xFE]"



text \<open>
  The regular-expression operation \<^emph>\<open>Canonicalize\<close> of a pattern with the \<^verbatim>\<open>i\<close> flag and
  without the \<^verbatim>\<open>u\<close> flag: the upper-case mapping of a code unit when that is a single
  code unit. In Latin-1 \<open>0xDF\<close> (upper case \<^verbatim>\<open>SS\<close>) stays, and \<open>0xB5\<close> and \<open>0xFF\<close> have
  upper-case partners beyond \<open>0xFF\<close> that no other Latin-1 code unit shares, so they are
  canonical for themselves here.
\<close>

definition Canonicalize :: "char \<Rightarrow> char" where
  "Canonicalize c =
     (case map_of (zip (ascii_lower @ latin1_lower) (ascii_upper @ latin1_upper)) c of
        Some u \<Rightarrow> u | None \<Rightarrow> c)"

text \<open>\<^verbatim>\<open>String.prototype.trim\<close>.\<close>

definition trim :: "string \<Rightarrow> string" where
  "trim s = rev (dropWhile is_space (rev (dropWhile is_space s)))"

subsection \<open>Replacement with a string pattern\<close>




subsection \<open>Regular expressions\<close>

text \<open>
  The fragment of the pattern language the sources use: the classes \<^verbatim>\<open>.\<close>, \<^verbatim>\<open>\s\<close> and
  \<^verbatim>\<open>\d\<close>, literal text, sequence, \<^verbatim>\<open>r?\<close>, \<^verbatim>\<open>r*\<close>, the lazy \<^verbatim>\<open>r*?\<close> and
  \<^verbatim>\<open>r{n}\<close>; \<^verbatim>\<open>r+\<close> is \<^verbatim>\<open>rr*\<close> and \<^verbatim>\<open>r+?\<close> is \<^verbatim>\<open>rr*?\<close>.
\<close>

datatype atom = Dot | Space | Digit

datatype regex =
    Atom atom
  | Str string
  | Conc regex regex
  | Opt regex
  | Star regex
  | LazyStar regex
  | Rep nat regex



fun atom_ok :: "atom \<Rightarrow> char \<Rightarrow> bool" where
  "atom_ok Dot c = (\<not> is_line_terminator c)"
| "atom_ok Space c = is_space c"
| "atom_ok Digit c = is_digit c"

text \<open>
  Literal text matches code unit by code unit, canonicalized under the \<^verbatim>\<open>i\<close> flag; the
  three classes contain no letters and are the same with and without the flag.
\<close>

definition chars_eq :: "bool \<Rightarrow> string \<Rightarrow> string \<Rightarrow> bool" where
  "chars_eq ignoreCase p s =
     (if ignoreCase then map Canonicalize p = map Canonicalize s else p = s)"

primrec rsize :: "regex \<Rightarrow> nat" where
  "rsize (Atom a) = 0"
| "rsize (Str p) = 0"
| "rsize (Conc r1 r2) = Suc (rsize r1 + rsize r2)"
| "rsize (Opt r) = Suc (rsize r)"
| "rsize (Star r) = Suc (rsize r)"
| "rsize (LazyStar r) = Suc (rsize r)"
| "rsize (Rep n r) = Suc (n + rsize r)"

text \<open>
  The backtracking matcher. \<open>ends ignoreCase r s\<close> lists, in the order in which the
  matcher of the language definition tries them, the rests of \<open>s\<close> that remain after each
  way in which \<open>r\<close> matches a prefix of \<open>s\<close>; its head is the match the engine reports when
  nothing follows \<open>r\<close>. A greedy quantifier tries one more iteration before it stops, a lazy
  one stops first, and an iteration that consumes nothing is rejected once the minimum
  count is reached.
\<close>

function ends :: "bool \<Rightarrow> regex \<Rightarrow> string \<Rightarrow> string list" where
  "ends ic (Atom a) s = (case s of [] \<Rightarrow> [] | c # cs \<Rightarrow> if atom_ok a c then [cs] else [])"
| "ends ic (Str p) s =
     (if chars_eq ic p (take (length p) s) then [drop (length p) s] else [])"
| "ends ic (Conc r1 r2) s = concat (map (ends ic r2) (ends ic r1 s))"
| "ends ic (Opt r) s = filter (\<lambda>s'. length s' < length s) (ends ic r s) @ [s]"
| "ends ic (Star r) s =
     concat (map (\<lambda>s'. if length s' < length s then ends ic (Star r) s' else [])
                 (ends ic r s)) @ [s]"
| "ends ic (LazyStar r) s =
     s # concat (map (\<lambda>s'. if length s' < length s then ends ic (LazyStar r) s' else [])
                     (ends ic r s))"
| "ends ic (Rep n r) s =
     (if n = 0 then [s] else concat (map (ends ic (Rep (n - 1) r)) (ends ic r s)))"
  by pat_completeness auto
termination
  by (relation "inv_image (less_than <*lex*> less_than) (\<lambda>(ic, r, s). (rsize r, length s))")
     auto







section \<open>Errors\<close>

text \<open>
  The exceptions of the sources, one constructor for each \<^verbatim>\<open>throw\<close> and each failing host
  call: \<open>RangeError\<close> is raised by \<^verbatim>\<open>new Intl.Locale\<close>, \<open>LoadFailure\<close> by
  \<^verbatim>\<open>fs.readFileSync\<close> or \<^verbatim>\<open>JSON.parse\<close>, \<open>RemoteFailure\<close> by \<^verbatim>\<open>generateContent\<close>;
  the others are the \<^verbatim>\<open>Error\<close> objects thrown with the messages "Missing API key ...",
  "Summarize prompt template not found", "Translate prompt template not found" and
  "Malformed response from AI".
\<close>

datatype error =
    RangeError
  | LoadFailure
  | RemoteFailure
  | MissingApiKey
  | SummarizeTemplateNotFound
  | TranslateTemplateNotFound
  | MalformedResponse

section \<open>The host's Intl.Locale\<close>



















section \<open>resolveLanguageFromLocale (utils/resolveLanguage.ts)\<close>


section \<open>PromptLoader (helpers/PromptLoader.ts)\<close>












section \<open>KaruAssistant (client/KaruAssistant.ts)\<close>

subsection \<open>Construction\<close>








subsection \<open>summarize\<close>





subsection \<open>translate\<close>









section \<open>Direct descriptions of the string operations\<close>












section \<open>Sample data\<close>



section \<open>Properties of the tables\<close>

text \<open>
  Claim C8. Every member of the \<^verbatim>\<open>Languages\<close> enumeration has an entry in
  \<^verbatim>\<open>LANGUAGE_DISPLAY_NAME\<close>, and that entry is a non-empty string: the mapping is total
  over the enumeration.
\<close>

theorem LANGUAGE_DISPLAY_NAME_total:
  "\<exists>name. LANGUAGE_DISPLAY_NAME l = Some name \<and> name \<noteq> []"
  by (cases l) (simp_all add: LANGUAGE_DISPLAY_NAME_def LANGUAGE_DISPLAY_NAME_entries_def)

section \<open>Properties of the constructor\<close>



section \<open>Properties of the prompt loader\<close>








section \<open>Properties of the locale resolver\<close>









section \<open>Properties of the replacement operations\<close>





lemma ends_Str: "ends False (Str p) s = (if take (length p) s = p then [drop (length p) s] else [])"
  by (simp add: chars_eq_def eq_commute)



















section \<open>Properties of the translate prompt\<close>








section \<open>Properties of summarize\<close>








section \<open>Properties of trim\<close>

lemma trim_Nil [simp]: "trim [] = []"
  by (simp add: trim_def)

lemma dropWhile_rev_nonempty:
  assumes "d \<noteq> []" "\<not> P (hd d)"
  shows "dropWhile P (rev d) \<noteq> []" "last (dropWhile P (rev d)) = hd d"
proof -
  from assms obtain x xs where d: "d = x # xs" "\<not> P x" by (cases d) auto
  then have "dropWhile P (rev d) = dropWhile P (rev xs) @ [x]"
    by (simp add: dropWhile_append3)
  hence "dropWhile P (rev d) \<noteq> [] \<and> last (dropWhile P (rev d)) = hd d"
    using d
    by (metis append_is_Nil_conv dropWhile_append dropWhile_append3 dropWhile_eq_Nil_conv
        last_snoc list.sel(1) not_Cons_self2 rev.simps(2))
  then show "dropWhile P (rev d) \<noteq> []" "last (dropWhile P (rev d)) = hd d" by auto
qed

lemma trim_edges:
  "trim s = [] \<or> (\<not> is_space (hd (trim s)) \<and> \<not> is_space (last (trim s)))"
proof (cases "dropWhile is_space s = []")
  case True
  have "trim s = []" unfolding trim_def True by simp
  then show ?thesis by simp
next
  case False
  let ?d = "dropWhile is_space s"
  let ?e = "dropWhile is_space (rev ?d)"
  from False have hd: "\<not> is_space (hd ?d)" by (metis hd_dropWhile)
  from dropWhile_rev_nonempty [of ?d is_space] False hd
  have e: "?e \<noteq> []" "last ?e = hd ?d" by auto
  from e(1) have "\<not> is_space (hd ?e)" by (metis hd_dropWhile)
  with e hd have "\<not> is_space (last (rev ?e))" "\<not> is_space (hd (rev ?e))"
    by (simp_all add: last_rev hd_rev)
  then show ?thesis by (simp add: trim_def)
qed

lemma trim_id:
  assumes "s \<noteq> []" "\<not> is_space (hd s)" "\<not> is_space (last s)"
  shows "trim s = s"
proof -
  from assms(1,2) have 1: "dropWhile is_space s = s" by (cases s) auto
  from assms(1,3) have "dropWhile is_space (rev s) = rev s"
    by (cases "rev s") (auto simp: hd_rev [symmetric])
  with 1 show ?thesis by (simp add: trim_def)
qed

lemma trim_idem: "trim (trim s) = trim s"
proof (cases "trim s = []")
  case True
  then show ?thesis by simp
next
  case False
  with trim_edges [of s] show ?thesis by (intro trim_id) auto
qed






section \<open>Properties of the label patterns\<close>

























section \<open>Properties of the response parser\<close>








section \<open>Properties of the input cleaning\<close>






































end
